theory Spec2Isabelle
  imports Main "HOL-Library.AList"
begin

section \<open>Errors and values shared by the models\<close>

text \<open>
  The exceptions that \<^verbatim>\<open>qlib/backtest/utils.py\<close> raises, catches or lets through.
  \<open>RuntimeError\<close> and \<open>NotImplementedError\<close> carry their message; \<open>IndexError\<close> is what
  indexing the calendar array out of range raises; \<open>OutOfBoundsDatetime\<close> is what pandas
  raises when timestamp arithmetic leaves the range of \<^verbatim>\<open>pd.Timestamp\<close>;
  \<open>TypeError\<close> is what a call raises when a keyword argument names a parameter that
  is already bound; \<open>OtherError\<close> stands for any exception of a collaborator (the
  calendar services, a trade decision) that this file neither raises nor catches.
\<close>

datatype error =
    RuntimeError string
  | NotImplementedError string
  | IndexError
  | OutOfBoundsDatetime
  | TypeError
  | OtherError string

text \<open>
  A \<^verbatim>\<open>pd.Timestamp\<close> is a count of nanoseconds since the epoch;
  \<^verbatim>\<open>pd.Timedelta(seconds=n)\<close> is \<open>n\<close> seconds in the same unit. pandas keeps the
  count in 64 bits: the representable timestamps run from \<^verbatim>\<open>pd.Timestamp.min\<close>
  (in the year 1677) to \<^verbatim>\<open>pd.Timestamp.max\<close> (in the year 2262), and subtracting a
  duration raises \<open>OutOfBoundsDatetime\<close> when the result is outside them.
\<close>

type_synonym timestamp = int

definition Timedelta_seconds :: "int \<Rightarrow> int" where
  "Timedelta_seconds n = n * 1000000000"

definition Timestamp_min :: timestamp where
  "Timestamp_min = - 9223372036854775807"

definition Timestamp_max :: timestamp where
  "Timestamp_max = 9223372036854775807"

definition representable :: "int \<Rightarrow> bool" where
  "representable t = (Timestamp_min \<le> t \<and> t \<le> Timestamp_max)"

definition timestamp_sub :: "timestamp \<Rightarrow> int \<Rightarrow> error + timestamp" where
  "timestamp_sub t d = (if representable (t - d) then Inr (t - d) else Inl OutOfBoundsDatetime)"

text \<open>
  \<^verbatim>\<open>a[i]\<close> on a one-dimensional array (or list) with an integer index: a negative index
  counts from the end, and an index outside \<open>[-n, n)\<close> raises \<open>IndexError\<close>.
\<close>

definition getitem :: "'a list \<Rightarrow> int \<Rightarrow> error + 'a" where
  "getitem xs i =
     (if 0 \<le> i \<and> i < int (length xs) then Inr (xs ! nat i)
      else if - int (length xs) \<le> i \<and> i < 0 then Inr (xs ! nat (int (length xs) + i))
      else Inl IndexError)"

section \<open>The step calendar: \<^verbatim>\<open>TradeCalendarManager\<close>\<close>

text \<open>
  The attributes that \<^verbatim>\<open>reset\<close> assigns. \<open>calendar\<close> is the attribute
  \<^verbatim>\<open>_calendar\<close>.
\<close>

record TradeCalendarManager =
  freq :: string
  start_time :: "timestamp option"
  end_time :: "timestamp option"
  calendar :: "timestamp list"
  start_index :: int
  end_index :: int
  trade_len :: int
  trade_step :: int

text \<open>
  The \<^verbatim>\<open>start_time\<close> and \<^verbatim>\<open>end_time\<close> arguments are
  \<^verbatim>\<open>Union[str, pd.Timestamp]\<close> or \<^verbatim>\<open>None\<close>. \<open>truthy\<close> is the test
  \<^verbatim>\<open>if start_time\<close>: \<^verbatim>\<open>None\<close> and the empty string are false.
\<close>

datatype time_arg = NoneArg | StrArg string | TimestampArg timestamp

fun truthy :: "time_arg \<Rightarrow> bool" where
  "truthy NoneArg = False"
| "truthy (StrArg s) = (s \<noteq> [])"
| "truthy (TimestampArg t) = True"

text \<open>
  The collaborators that \<^verbatim>\<open>reset\<close> calls and this file does not define, taken as
  parameters: \<open>parse_time\<close> is \<^verbatim>\<open>pd.Timestamp\<close> on a string,
  \<open>get_resam_calendar\<close> returns \<open>(calendar, freq, freq_sam)\<close> and \<open>locate_index\<close>
  returns \<open>(start_time, end_time, start_index, end_index)\<close>. Each may raise.
\<close>

record services =
  parse_time :: "string \<Rightarrow> error + timestamp"
  get_resam_calendar :: "string \<Rightarrow> error + (timestamp list \<times> string \<times> string option)"
  locate_index ::
    "time_arg \<Rightarrow> time_arg \<Rightarrow> string \<Rightarrow> string option \<Rightarrow> error + (timestamp \<times> timestamp \<times> int \<times> int)"

text \<open>\<^verbatim>\<open>pd.Timestamp(x) if x else None\<close>\<close>

fun to_timestamp :: "services \<Rightarrow> time_arg \<Rightarrow> error + timestamp option" where
  "to_timestamp svc NoneArg = Inr None"
| "to_timestamp svc (StrArg s) =
     (if truthy (StrArg s)
      then (case parse_time svc s of Inl e \<Rightarrow> Inl e | Inr t \<Rightarrow> Inr (Some t))
      else Inr None)"
| "to_timestamp svc (TimestampArg t) = Inr (Some t)"

text \<open>
  \<^verbatim>\<open>reset\<close> assigns the attributes one after the other, so an exception of a
  collaborator leaves the assignments made before it: the result is the outcome together
  with the object as it then is.
\<close>

definition reset ::
  "services \<Rightarrow> TradeCalendarManager \<Rightarrow> string \<Rightarrow> time_arg \<Rightarrow> time_arg
     \<Rightarrow> (error + unit) \<times> TradeCalendarManager" where
  "reset svc self freq_arg start_arg end_arg =
     (let s1 = self\<lparr>freq := freq_arg\<rparr> in
      case to_timestamp svc start_arg of
        Inl e \<Rightarrow> (Inl e, s1)
      | Inr st \<Rightarrow>
         (let s2 = s1\<lparr>start_time := st\<rparr> in
          case to_timestamp svc end_arg of
            Inl e \<Rightarrow> (Inl e, s2)
          | Inr et \<Rightarrow>
             (let s3 = s2\<lparr>end_time := et\<rparr> in
              case get_resam_calendar svc freq_arg of
                Inl e \<Rightarrow> (Inl e, s3)
              | Inr (cal, freq', freq_sam) \<Rightarrow>
                 (let s4 = s3\<lparr>calendar := cal\<rparr> in
                  case locate_index svc start_arg end_arg freq' freq_sam of
                    Inl e \<Rightarrow> (Inl e, s4)
                  | Inr (_, _, si, ei) \<Rightarrow>
                      (Inr (),
                       s4\<lparr>start_index := si, end_index := ei,
                          trade_len := ei - si + 1, trade_step := 0\<rparr>)))))"

text \<open>
  \<^verbatim>\<open>__init__\<close> is \<^verbatim>\<open>reset\<close> on a new object, which has no attribute yet; a
  successful \<^verbatim>\<open>reset\<close> assigns every one of them (lemma \<open>reset_ignores_old_state\<close>
  below), so the values the new object starts from are never read. An exception
  leaves no object.
\<close>

definition new_object :: TradeCalendarManager where
  "new_object = \<lparr>freq = [], start_time = None, end_time = None, calendar = [],
     start_index = 0, end_index = 0, trade_len = 0, trade_step = 0\<rparr>"

definition init ::
  "services \<Rightarrow> string \<Rightarrow> time_arg \<Rightarrow> time_arg \<Rightarrow> error + TradeCalendarManager" where
  "init svc freq_arg start_arg end_arg =
     (case reset svc new_object freq_arg start_arg end_arg of
        (Inl e, _) \<Rightarrow> Inl e
      | (Inr _, self) \<Rightarrow> Inr self)"

definition finished :: "TradeCalendarManager \<Rightarrow> bool" where
  "finished self = (trade_step self \<ge> trade_len self)"

definition finished_message :: string where
  "finished_message = ''The calendar is finished, please reset it if you want to call it!''"

definition step :: "TradeCalendarManager \<Rightarrow> (error + unit) \<times> TradeCalendarManager" where
  "step self =
     (if finished self then (Inl (RuntimeError finished_message), self)
      else (Inr (), self\<lparr>trade_step := trade_step self + 1\<rparr>))"

text \<open>\<open>step_n n\<close> is \<open>n\<close> calls of \<^verbatim>\<open>step()\<close> in a row; the first exception ends it.\<close>

fun step_n :: "nat \<Rightarrow> TradeCalendarManager \<Rightarrow> (error + unit) \<times> TradeCalendarManager" where
  "step_n 0 self = (Inr (), self)"
| "step_n (Suc n) self =
     (case step self of
        (Inl e, self') \<Rightarrow> (Inl e, self')
      | (Inr _, self') \<Rightarrow> step_n n self')"

definition get_freq :: "TradeCalendarManager \<Rightarrow> string" where
  "get_freq self = freq self"

definition get_trade_len :: "TradeCalendarManager \<Rightarrow> int" where
  "get_trade_len self = trade_len self"

definition get_trade_step :: "TradeCalendarManager \<Rightarrow> int" where
  "get_trade_step self = trade_step self"

text \<open>
  \<^verbatim>\<open>get_step_time(self, trade_step=0, shift=0)\<close>: an argument the caller leaves out is
  \<open>None\<close> here and takes the default of the signature, \<open>0\<close> for both. The two
  entries are read left to right, and one second is subtracted from the second.
\<close>

definition get_step_time ::
  "TradeCalendarManager \<Rightarrow> int option \<Rightarrow> int option \<Rightarrow> error + (timestamp \<times> timestamp)" where
  "get_step_time self trade_step_arg shift_arg =
     (let trade_step0 = (case trade_step_arg of None \<Rightarrow> 0 | Some s \<Rightarrow> s);
          shift = (case shift_arg of None \<Rightarrow> 0 | Some k \<Rightarrow> k);
          trade_step1 = trade_step0 - shift;
          calendar_index = start_index self + trade_step1
      in case getitem (calendar self) calendar_index of
           Inl e \<Rightarrow> Inl e
         | Inr left \<Rightarrow>
             (case getitem (calendar self) (calendar_index + 1) of
                Inl e \<Rightarrow> Inl e
              | Inr nxt \<Rightarrow>
                  (case timestamp_sub nxt (Timedelta_seconds 1) of
                     Inl e \<Rightarrow> Inl e
                   | Inr right \<Rightarrow> Inr (left, right))))"

definition get_cur_step_time :: "TradeCalendarManager \<Rightarrow> error + (timestamp \<times> timestamp)" where
  "get_cur_step_time self = get_step_time self (Some (get_trade_step self)) None"

definition get_all_time :: "TradeCalendarManager \<Rightarrow> timestamp option \<times> timestamp option" where
  "get_all_time self = (start_time self, end_time self)"

section \<open>The capability registry: \<^verbatim>\<open>BaseInfrastructure\<close> and its variants\<close>

text \<open>
  The three classes of the file. A registry object is its class and its instance
  dictionary; the values it holds are opaque objects (\<open>Obj\<close>). Attribute lookup
  (\<^verbatim>\<open>hasattr\<close>, \<^verbatim>\<open>getattr\<close>) reads the instance dictionary first and then the
  class (\<open>ClassAttr\<close>), where it finds the methods the class bodies define
  (\<open>base_dir\<close> and the two methods of \<^verbatim>\<open>LevelInfrastructure\<close>) and the names that
  every instance of a Python 3 class has (\<open>object_dir\<close>).
\<close>

datatype infra_class = BaseInfrastructure | CommonInfrastructure | LevelInfrastructure

datatype 'v pyval = Obj 'v | ClassAttr infra_class string

record 'v infra =
  cls :: infra_class
  attrs :: "string \<rightharpoonup> 'v pyval"

fun get_support_infra :: "infra_class \<Rightarrow> error + string list" where
  "get_support_infra BaseInfrastructure =
     Inl (NotImplementedError ''`get_support_infra` is not implemented!'')"
| "get_support_infra CommonInfrastructure = Inr [''trade_account'', ''trade_exchange'']"
| "get_support_infra LevelInfrastructure = Inr [''trade_calendar'', ''sub_level_infra'']"

definition base_dir :: "string list" where
  "base_dir = [''__init__'', ''get_support_infra'', ''reset_infra'', ''get'', ''has'', ''update'']"

definition object_dir :: "string list" where
  "object_dir = [''__class__'', ''__delattr__'', ''__dict__'', ''__dir__'', ''__doc__'',
     ''__eq__'', ''__format__'', ''__ge__'', ''__getattribute__'', ''__gt__'', ''__hash__'',
     ''__init_subclass__'', ''__le__'', ''__lt__'', ''__module__'', ''__ne__'', ''__new__'',
     ''__reduce__'', ''__reduce_ex__'', ''__repr__'', ''__setattr__'', ''__sizeof__'',
     ''__str__'', ''__subclasshook__'', ''__weakref__'']"

fun class_dir :: "infra_class \<Rightarrow> string list" where
  "class_dir BaseInfrastructure = base_dir @ object_dir"
| "class_dir CommonInfrastructure = base_dir @ object_dir"
| "class_dir LevelInfrastructure =
     base_dir @ [''reset_cal'', ''set_sub_level_infra''] @ object_dir"

definition getattr_infra :: "'v infra \<Rightarrow> string \<Rightarrow> 'v pyval option" where
  "getattr_infra self name =
     (case attrs self name of
        Some v \<Rightarrow> Some v
      | None \<Rightarrow> if name \<in> set (class_dir (cls self)) then Some (ClassAttr (cls self) name) else None)"

definition hasattr_infra :: "'v infra \<Rightarrow> string \<Rightarrow> bool" where
  "hasattr_infra self name = (getattr_infra self name \<noteq> None)"

definition setattr_infra :: "'v infra \<Rightarrow> string \<Rightarrow> 'v pyval \<Rightarrow> 'v infra" where
  "setattr_infra self k v = self\<lparr>attrs := (attrs self)(k \<mapsto> v)\<rparr>"

definition ignored_warning :: "string \<Rightarrow> string" where
  "ignored_warning k = k @ '' is ignored in `reset_infra`!''"

definition not_found_warning :: "string \<Rightarrow> string" where
  "not_found_warning name = ''infra '' @ name @ '' is not found!''"

text \<open>
  The loop of \<^verbatim>\<open>reset_infra\<close> over \<^verbatim>\<open>kwargs.items()\<close>, in the order of the
  dictionary. It returns the warnings it emits, in order, and the object.
\<close>

fun reset_infra_loop ::
  "string list \<Rightarrow> (string \<times> 'v pyval) list \<Rightarrow> 'v infra \<Rightarrow> string list \<times> 'v infra" where
  "reset_infra_loop support_infra [] self = ([], self)"
| "reset_infra_loop support_infra ((k, v) # kwargs) self =
     (if k \<in> set support_infra
      then reset_infra_loop support_infra kwargs (setattr_infra self k v)
      else (case reset_infra_loop support_infra kwargs self of
              (ws, self') \<Rightarrow> (ignored_warning k # ws, self')))"

text \<open>
  \<^verbatim>\<open>reset_infra(self, **kwargs)\<close>: the keyword arguments of the call are a
  dictionary, an association list with distinct keys in insertion order. The first
  parameter is named \<^verbatim>\<open>self\<close> and is bound to the object, so a keyword argument of
  that name makes the call raise \<open>TypeError\<close> before the body runs. The only other
  exception is the one of \<^verbatim>\<open>get_support_infra\<close>, raised before anything is assigned.
\<close>

definition reset_infra ::
  "'v infra \<Rightarrow> (string \<times> 'v pyval) list \<Rightarrow> error + (string list \<times> 'v infra)" where
  "reset_infra self kwargs =
     (if ''self'' \<in> set (map fst kwargs) then Inl TypeError
      else case get_support_infra (cls self) of
        Inl e \<Rightarrow> Inl e
      | Inr support_infra \<Rightarrow> Inr (reset_infra_loop support_infra kwargs self))"

text \<open>
  \<^verbatim>\<open>__init__(self, **kwargs)\<close>: \<^verbatim>\<open>reset_infra\<close> on an object with an empty
  dictionary; a keyword argument named \<^verbatim>\<open>self\<close> raises here in the same way.
\<close>

definition init_infra ::
  "infra_class \<Rightarrow> (string \<times> 'v pyval) list \<Rightarrow> error + (string list \<times> 'v infra)" where
  "init_infra c kwargs = reset_infra \<lparr>cls = c, attrs = Map.empty\<rparr> kwargs"

text \<open>
  \<^verbatim>\<open>get\<close> returns the attribute, or warns and returns \<^verbatim>\<open>None\<close> (here \<open>None\<close>).
  The result is the warnings and the value.
\<close>

definition get :: "'v infra \<Rightarrow> string \<Rightarrow> string list \<times> 'v pyval option" where
  "get self infra_name =
     (if hasattr_infra self infra_name then ([], getattr_infra self infra_name)
      else ([not_found_warning infra_name], None))"

definition has :: "'v infra \<Rightarrow> string \<Rightarrow> error + bool" where
  "has self infra_name =
     (case get_support_infra (cls self) of
        Inl e \<Rightarrow> Inl e
      | Inr support_infra \<Rightarrow>
          Inr (if infra_name \<in> set support_infra \<and> hasattr_infra self infra_name
               then True else False))"

text \<open>
  The dictionary comprehension of \<^verbatim>\<open>update\<close>: the supported names of \<open>other\<close> in
  order, each with its attribute when \<open>other\<close> has it. Assigning a key that the
  dictionary already has replaces its value in place (\<open>AList.update\<close>).
\<close>

fun infra_dict ::
  "'v infra \<Rightarrow> string list \<Rightarrow> (string \<times> 'v pyval) list \<Rightarrow> (string \<times> 'v pyval) list" where
  "infra_dict other [] d = d"
| "infra_dict other (n # ns) d =
     (case getattr_infra other n of
        Some v \<Rightarrow> infra_dict other ns (AList.update n v d)
      | None \<Rightarrow> infra_dict other ns d)"

definition update :: "'v infra \<Rightarrow> 'v infra \<Rightarrow> error + (string list \<times> 'v infra)" where
  "update self other =
     (case get_support_infra (cls other) of
        Inl e \<Rightarrow> Inl e
      | Inr support_infra \<Rightarrow> reset_infra self (infra_dict other support_infra []))"

section \<open>The range resolver: \<^verbatim>\<open>get_start_end_idx\<close>\<close>

text \<open>
  The trade decision is defined elsewhere; what this file uses of it is the outcome of
  its method \<^verbatim>\<open>get_range_limit()\<close>: a pair of indices, or an exception.
\<close>

record BaseTradeDecision =
  get_range_limit :: "error + (int \<times> int)"

text \<open>
  \<^verbatim>\<open>except NotImplementedError\<close> catches that exception with any message; every other
  exception goes on to the caller.
\<close>

definition get_start_end_idx ::
  "TradeCalendarManager \<Rightarrow> BaseTradeDecision \<Rightarrow> error + (int \<times> int)" where
  "get_start_end_idx trade_calendar outer_trade_decision =
     (case get_range_limit outer_trade_decision of
        Inr r \<Rightarrow> Inr r
      | Inl (NotImplementedError m) \<Rightarrow> Inr (0, get_trade_len trade_calendar - 1)
      | Inl e \<Rightarrow> Inl e)"

section \<open>Concrete objects\<close>

text \<open>
  A daily calendar of five bars, of which the manager governs the bars 1 to 3; the
  cursor is on its second step.
\<close>

definition example_calendar :: TradeCalendarManager where
  "example_calendar = \<lparr>freq = ''day'', start_time = Some 86400000000000,
     end_time = Some 259200000000000,
     calendar = [0, 86400000000000, 172800000000000, 259200000000000, 345600000000000],
     start_index = 1, end_index = 3, trade_len = 3, trade_step = 1\<rparr>"


text \<open>Calendar services that locate the bars 1 to 3 of that calendar.\<close>

definition example_services :: services where
  "example_services = \<lparr>
     parse_time = (\<lambda>s. Inl (OtherError s)),
     get_resam_calendar = (\<lambda>f. Inr
       ([0, 86400000000000, 172800000000000, 259200000000000, 345600000000000], f, None)),
     locate_index = (\<lambda>s e f fs. Inr (86400000000000, 259200000000000, 1, 3))\<rparr>"

text \<open>
  The same services asked for a range that ends before it starts: the start is
  located at bar 3 and the end at bar 1.
\<close>

definition inverted_services :: services where
  "inverted_services = \<lparr>
     parse_time = (\<lambda>s. Inl (OtherError s)),
     get_resam_calendar = (\<lambda>f. Inr
       ([0, 86400000000000, 172800000000000, 259200000000000, 345600000000000], f, None)),
     locate_index = (\<lambda>s e f fs. Inr (259200000000000, 86400000000000, 3, 1))\<rparr>"

text \<open>The invariant of the step cursor.\<close>

definition step_invariant :: "TradeCalendarManager \<Rightarrow> bool" where
  "step_invariant self = (0 \<le> trade_step self \<and> trade_step self \<le> trade_len self)"

definition empty_common :: "nat infra" where
  "empty_common = \<lparr>cls = CommonInfrastructure, attrs = Map.empty\<rparr>"

definition holding_common :: "nat infra" where
  "holding_common = \<lparr>cls = CommonInfrastructure, attrs = [''trade_account'' \<mapsto> Obj 7]\<rparr>"

definition empty_level :: "nat infra" where
  "empty_level = \<lparr>cls = LevelInfrastructure, attrs = Map.empty\<rparr>"

definition limited_decision :: BaseTradeDecision where
  "limited_decision = \<lparr>get_range_limit = Inr (1, 2)\<rparr>"

definition plain_decision :: BaseTradeDecision where
  "plain_decision =
     \<lparr>get_range_limit = Inl (NotImplementedError ''get_range_limit is not implemented'')\<rparr>"

section \<open>The step calendar: properties\<close>

subsection \<open>Auxiliary facts\<close>

lemma reset_success:
  assumes "reset svc self0 f st et = (Inr u, self)"
  shows "trade_step self = 0 \<and> trade_len self = end_index self - start_index self + 1"
  using assms
  by (auto simp: reset_def Let_def split: sum.splits prod.splits)

lemma reset_ignores_old_state:
  assumes "fst (reset svc a f st et) = Inr u"
  shows "reset svc b f st et = reset svc a f st et"
  using assms
  by (cases a, cases b) (auto simp: reset_def Let_def split: sum.splits prod.splits)

lemma step_n_success:
  "trade_step self + int n \<le> trade_len self \<Longrightarrow>
   step_n n self = (Inr (), self\<lparr>trade_step := trade_step self + int n\<rparr>)"
proof (induction n arbitrary: self)
  case 0
  then show ?case by simp
next
  case (Suc n)
  let ?s = "self\<lparr>trade_step := trade_step self + 1\<rparr>"
  from Suc.prems have nf: "\<not> finished self"
    by (simp add: finished_def)
  have "step_n n ?s = (Inr (), ?s\<lparr>trade_step := trade_step ?s + int n\<rparr>)"
    using Suc.prems by (intro Suc.IH) simp
  then show ?case
    using nf by (simp add: step_def add.assoc)
qed

lemma step_n_trade_step:
  "step_n n self = (Inr u, self') \<Longrightarrow> trade_step self' = trade_step self + int n"
proof (induction n arbitrary: self)
  case 0
  then show ?case by simp
next
  case (Suc n)
  then show ?case
    by (cases "finished self") (auto simp: step_def)
qed

lemma getitem_in_range:
  "0 \<le> i \<Longrightarrow> i < int (length xs) \<Longrightarrow> getitem xs i = Inr (xs ! nat i)"
  by (simp add: getitem_def)

lemma get_step_time_in_range:
  assumes "0 \<le> start_index self + s"
    and "start_index self + s + 1 < int (length (calendar self))"
    and "representable (calendar self ! nat (start_index self + s + 1) - Timedelta_seconds 1)"
  shows "get_step_time self (Some s) (Some 0) =
         Inr (calendar self ! nat (start_index self + s),
              calendar self ! nat (start_index self + s + 1) - Timedelta_seconds 1)"
  using assms by (simp add: get_step_time_def getitem_in_range timestamp_sub_def Let_def)

lemma get_step_time_out_of_bounds:
  assumes "getitem (calendar self) (start_index self + s) = Inr open_s"
    and "getitem (calendar self) (start_index self + s + 1) = Inr open_next"
    and "\<not> representable (open_next - Timedelta_seconds 1)"
  shows "get_step_time self (Some s) (Some 0) = Inl OutOfBoundsDatetime"
  using assms by (simp add: get_step_time_def timestamp_sub_def Let_def)


lemma get_step_time_last_bar:
  assumes "0 \<le> start_index self + s"
    and "start_index self + s + 1 = int (length (calendar self))"
  shows "get_step_time self (Some s) (Some 0) = Inl IndexError"
  using assms by (simp add: get_step_time_def getitem_def Let_def)

subsection \<open>The default of \<^verbatim>\<open>trade_step\<close>\<close>

text \<open>
  With the cursor on step 1, \<^verbatim>\<open>get_step_time()\<close> gives the interval of step 0 and
  \<^verbatim>\<open>get_step_time(trade_step=1)\<close> the one of step 1: the argument left out is not the
  cursor.
\<close>

theorem get_step_time_default_not_cursor:
  "get_step_time example_calendar None None \<noteq>
   get_step_time example_calendar (Some (trade_step example_calendar)) None"
  by (simp add: get_step_time_def example_calendar_def getitem_def Timedelta_seconds_def
      timestamp_sub_def representable_def Timestamp_min_def Timestamp_max_def)

text \<open>
  C1, amended. Calling \<^verbatim>\<open>get_step_time\<close> with no \<^verbatim>\<open>trade_step\<close> argument returns
  the same result as calling it with \<^verbatim>\<open>trade_step\<close> equal to 0, the default of the
  signature, whatever the cursor is. It is \<^verbatim>\<open>get_cur_step_time()\<close> that reads the
  cursor: it returns \<^verbatim>\<open>get_step_time(trade_step=current, shift=0)\<close>.
\<close>

theorem get_step_time_default_is_zero:
  "get_step_time self None shift_arg = get_step_time self (Some 0) shift_arg \<and>
   get_cur_step_time self = get_step_time self (Some (trade_step self)) (Some 0)"
  by (simp add: get_step_time_def get_cur_step_time_def get_trade_step_def)

subsection \<open>Stepping\<close>

text \<open>
  C2. \<^verbatim>\<open>step()\<close> raises if and only if \<^verbatim>\<open>finished()\<close> is true, that is
  \<open>trade_step \<ge> trade_len\<close>; when not finished it adds exactly 1 to \<open>trade_step\<close> and
  changes nothing else: \<open>freq\<close>, \<open>start_time\<close>, \<open>end_time\<close>, the calendar,
  \<open>start_index\<close>, \<open>end_index\<close> and \<open>trade_len\<close> are as before.
\<close>

theorem step_raises_iff_finished:
  "((\<exists>e. fst (step self) = Inl e) \<longleftrightarrow> finished self) \<and>
   (finished self \<longleftrightarrow> trade_step self \<ge> trade_len self) \<and>
   (\<not> finished self \<longrightarrow>
      step self = (Inr (), self\<lparr>trade_step := trade_step self + 1\<rparr>) \<and>
      trade_step (snd (step self)) = trade_step self + 1 \<and>
      freq (snd (step self)) = freq self \<and>
      start_time (snd (step self)) = start_time self \<and>
      end_time (snd (step self)) = end_time self \<and>
      calendar (snd (step self)) = calendar self \<and>
      start_index (snd (step self)) = start_index self \<and>
      end_index (snd (step self)) = end_index self \<and>
      trade_len (snd (step self)) = trade_len self)"
  by (simp add: step_def finished_def)

theorem step_raises_iff_finished_witness:
  "\<not> finished example_calendar \<and>
   step example_calendar = (Inr (), example_calendar\<lparr>trade_step := 2\<rparr>) \<and>
   trade_len (snd (step example_calendar)) = 3"
  using step_raises_iff_finished [of example_calendar]
  by (simp add: example_calendar_def finished_def)

text \<open>
  C3. When \<^verbatim>\<open>reset\<close> succeeds, the object it leaves has \<open>trade_step = 0\<close> and
  \<open>trade_len = end_index - start_index + 1\<close>, and is not finished when \<open>trade_len > 0\<close>.
  From there \<open>trade_len\<close> calls of \<^verbatim>\<open>step()\<close> all succeed, the calendar is finished
  after the last of them and after none before it, and one more call raises.
\<close>

theorem reset_then_step_trade_len_times:
  assumes "reset svc self0 freq_arg start_arg end_arg = (Inr u, self)"
  shows "trade_step self = 0 \<and>
         trade_len self = end_index self - start_index self + 1 \<and>
         (trade_len self > 0 \<longrightarrow> \<not> finished self) \<and>
         (\<forall>n. int n = trade_len self \<longrightarrow>
            (\<exists>self'. step_n n self = (Inr (), self') \<and> finished self' \<and>
                     (\<forall>k < n. \<not> finished (snd (step_n k self))) \<and>
                     (\<exists>e. step self' = (Inl e, self'))))"
proof -
  have r: "trade_step self = 0" "trade_len self = end_index self - start_index self + 1"
    using reset_success [OF assms] by simp_all
  have a: "trade_len self > 0 \<longrightarrow> \<not> finished self"
    using r by (simp add: finished_def)
  have b: "\<exists>self'. step_n n self = (Inr (), self') \<and> finished self' \<and>
                   (\<forall>k < n. \<not> finished (snd (step_n k self))) \<and>
                   (\<exists>e. step self' = (Inl e, self'))"
    if n: "int n = trade_len self" for n
  proof -
    let ?s = "self\<lparr>trade_step := trade_step self + int n\<rparr>"
    have 1: "step_n n self = (Inr (), ?s)"
      using n r by (intro step_n_success) simp
    have 2: "finished ?s"
      using n r by (simp add: finished_def)
    have 3: "\<not> finished (snd (step_n k self))" if "k < n" for k
    proof -
      have "step_n k self = (Inr (), self\<lparr>trade_step := trade_step self + int k\<rparr>)"
        using that n r by (intro step_n_success) simp
      then show ?thesis
        using that n r by (simp add: finished_def)
    qed
    have 4: "step ?s = (Inl (RuntimeError finished_message), ?s)"
      using 2 by (simp add: step_def)
    show ?thesis
      using 1 2 3 4 by blast
  qed
  show ?thesis
    using r a b by blast
qed

theorem reset_then_step_trade_len_times_witness:
  "reset example_services new_object ''day''
       (TimestampArg 86400000000000) (TimestampArg 259200000000000)
     = (Inr (), example_calendar\<lparr>trade_step := 0\<rparr>) \<and>
   trade_len (example_calendar\<lparr>trade_step := 0\<rparr>) = 3 \<and>
   \<not> finished (example_calendar\<lparr>trade_step := 0\<rparr>) \<and>
   step_n 3 (example_calendar\<lparr>trade_step := 0\<rparr>)
     = (Inr (), example_calendar\<lparr>trade_step := 3\<rparr>) \<and>
   finished (example_calendar\<lparr>trade_step := 3\<rparr>) \<and>
   step (example_calendar\<lparr>trade_step := 3\<rparr>)
     = (Inl (RuntimeError finished_message), example_calendar\<lparr>trade_step := 3\<rparr>)"
proof -
  have r: "reset example_services new_object ''day''
       (TimestampArg 86400000000000) (TimestampArg 259200000000000)
     = (Inr (), example_calendar\<lparr>trade_step := 0\<rparr>)"
    by (simp add: reset_def example_services_def new_object_def example_calendar_def)
  have n: "int 3 = trade_len (example_calendar\<lparr>trade_step := 0\<rparr>)"
    by (simp add: example_calendar_def)
  show ?thesis
    using reset_then_step_trade_len_times [OF r] r n
    by (simp add: example_calendar_def finished_def step_def eval_nat_numeral)
qed

text \<open>
  C10. When \<^verbatim>\<open>step()\<close> is called on a finished calendar it raises before it assigns
  anything: the object is the one before the call, so it is still finished, and
  \<open>trade_step\<close> still equals \<open>trade_len\<close> if it did.
\<close>

theorem step_finished_leaves_state:
  assumes "finished self"
  shows "step self = (Inl (RuntimeError finished_message), self) \<and>
         finished (snd (step self)) \<and>
         (trade_step self = trade_len self \<longrightarrow>
            trade_step (snd (step self)) = trade_len (snd (step self)))"
  using assms by (simp add: step_def)

theorem step_finished_leaves_state_witness:
  "finished (example_calendar\<lparr>trade_step := 3\<rparr>) \<and>
   step (example_calendar\<lparr>trade_step := 3\<rparr>)
     = (Inl (RuntimeError finished_message), example_calendar\<lparr>trade_step := 3\<rparr>) \<and>
   trade_step (snd (step (example_calendar\<lparr>trade_step := 3\<rparr>))) = 3 \<and>
   trade_len (snd (step (example_calendar\<lparr>trade_step := 3\<rparr>))) = 3"
proof -
  have f: "finished (example_calendar\<lparr>trade_step := 3\<rparr>)"
    by (simp add: finished_def example_calendar_def)
  show ?thesis
    using step_finished_leaves_state [OF f] f
    by (simp add: example_calendar_def)
qed

subsection \<open>The invariant of the cursor\<close>

text \<open>
  \<^verbatim>\<open>reset\<close> takes the index range as the locating service gives it. When the service
  locates the start at bar 3 and the end at bar 1, \<^verbatim>\<open>reset\<close> succeeds with
  \<open>trade_len = -1\<close> and \<open>trade_step = 0\<close>, and \<open>0 \<le> trade_step \<le> trade_len\<close> is false.
\<close>

theorem step_invariant_fails_inverted_range:
  "fst (reset inverted_services new_object ''day''
          (TimestampArg 259200000000000) (TimestampArg 86400000000000)) = Inr () \<and>
   \<not> step_invariant (snd (reset inverted_services new_object ''day''
          (TimestampArg 259200000000000) (TimestampArg 86400000000000)))"
  by (simp add: reset_def inverted_services_def new_object_def step_invariant_def)

text \<open>
  C6, amended. After a successful \<^verbatim>\<open>reset\<close> the invariant \<open>0 \<le> trade_step \<le> trade_len\<close>
  holds exactly when the located range has \<open>start_index \<le> end_index + 1\<close>, that is
  \<open>trade_len \<ge> 0\<close>. Every successful \<^verbatim>\<open>step()\<close> preserves it and adds exactly 1 to
  \<open>trade_step\<close>; a \<^verbatim>\<open>step()\<close> that raises leaves the object as it was; \<open>n\<close> successful
  calls in a row add exactly \<open>n\<close>.
\<close>

theorem step_invariant_reset_step:
  "(reset svc self0 freq_arg start_arg end_arg = (Inr u, fresh) \<longrightarrow>
      (step_invariant fresh \<longleftrightarrow> start_index fresh \<le> end_index fresh + 1)) \<and>
   (step_invariant self \<and> step self = (Inr u, self') \<longrightarrow>
      step_invariant self' \<and> trade_step self' = trade_step self + 1) \<and>
   (step self = (Inl e, self') \<longrightarrow> self' = self) \<and>
   (step_n n self = (Inr u, self'') \<longrightarrow> trade_step self'' = trade_step self + int n)"
proof -
  have 1: "step_invariant fresh \<longleftrightarrow> start_index fresh \<le> end_index fresh + 1"
    if "reset svc self0 freq_arg start_arg end_arg = (Inr u, fresh)"
    using reset_success [OF that] by (auto simp: step_invariant_def)
  have 2: "step_invariant self' \<and> trade_step self' = trade_step self + 1"
    if "step_invariant self" "step self = (Inr u, self')"
    using that by (auto simp: step_def step_invariant_def finished_def split: if_splits)
  have 3: "self' = self" if "step self = (Inl e, self')"
    using that by (auto simp: step_def split: if_splits)
  have 4: "trade_step self'' = trade_step self + int n" if "step_n n self = (Inr u, self'')"
    using that by (rule step_n_trade_step)
  show ?thesis
    using 1 2 3 4 by blast
qed

theorem step_invariant_reset_step_witness:
  "reset example_services new_object ''day''
       (TimestampArg 86400000000000) (TimestampArg 259200000000000)
     = (Inr (), example_calendar\<lparr>trade_step := 0\<rparr>) \<and>
   step_invariant (example_calendar\<lparr>trade_step := 0\<rparr>) \<and>
   step_invariant example_calendar \<and>
   step example_calendar = (Inr (), example_calendar\<lparr>trade_step := 2\<rparr>) \<and>
   step_invariant (example_calendar\<lparr>trade_step := 2\<rparr>) \<and>
   step (example_calendar\<lparr>trade_step := 3\<rparr>)
     = (Inl (RuntimeError finished_message), example_calendar\<lparr>trade_step := 3\<rparr>) \<and>
   step_n 2 example_calendar = (Inr (), example_calendar\<lparr>trade_step := 3\<rparr>)"
proof -
  have r: "reset example_services new_object ''day''
       (TimestampArg 86400000000000) (TimestampArg 259200000000000)
     = (Inr (), example_calendar\<lparr>trade_step := 0\<rparr>)"
    by (simp add: reset_def example_services_def new_object_def example_calendar_def)
  have i: "step_invariant example_calendar"
    by (simp add: step_invariant_def example_calendar_def)
  have s: "step example_calendar = (Inr (), example_calendar\<lparr>trade_step := 2\<rparr>)"
    by (simp add: step_def finished_def example_calendar_def)
  have f: "step (example_calendar\<lparr>trade_step := 3\<rparr>)
     = (Inl (RuntimeError finished_message), example_calendar\<lparr>trade_step := 3\<rparr>)"
    by (simp add: step_def finished_def example_calendar_def)
  have n: "step_n 2 example_calendar = (Inr (), example_calendar\<lparr>trade_step := 3\<rparr>)"
    by (simp add: step_def finished_def example_calendar_def eval_nat_numeral)
  show ?thesis
    using step_invariant_reset_step [where svc = example_services and self0 = new_object
        and freq_arg = "''day''" and start_arg = "TimestampArg 86400000000000"
        and end_arg = "TimestampArg 259200000000000" and u = "()"
        and fresh = "example_calendar\<lparr>trade_step := 0\<rparr>"
        and self = example_calendar and self' = "example_calendar\<lparr>trade_step := 2\<rparr>"
        and n = 2 and self'' = "example_calendar\<lparr>trade_step := 3\<rparr>"]
      r i s f n
    by (simp add: step_invariant_def example_calendar_def)
qed

subsection \<open>Step times\<close>

text \<open>
  C4. \<^verbatim>\<open>get_step_time(s, shift)\<close> equals \<^verbatim>\<open>get_step_time(s - shift, 0)\<close> for every step
  index \<open>s\<close> and every integer \<open>shift\<close>: the same interval when the indexing is valid, the
  same exception when it is not.
\<close>

theorem get_step_time_shift_reindex:
  "get_step_time self (Some s) (Some shift) = get_step_time self (Some (s - shift)) (Some 0)"
  by (simp add: get_step_time_def)




section \<open>The capability registry: properties\<close>

subsection \<open>Auxiliary facts\<close>

lemma variant_support:
  "c \<noteq> BaseInfrastructure \<Longrightarrow> \<exists>support_infra. get_support_infra c = Inr support_infra"
  by (cases c) simp_all

lemma init_infra_base_raises:
  "\<exists>e. init_infra BaseInfrastructure kwargs = Inl e"
  by (simp add: init_infra_def reset_infra_def)

lemma self_not_supported:
  "get_support_infra c = Inr support_infra \<Longrightarrow> ''self'' \<notin> set support_infra"
  by (cases c) auto

lemma support_not_in_class_dir:
  "get_support_infra c = Inr support_infra \<Longrightarrow> name \<in> set support_infra \<Longrightarrow>
   name \<notin> set (class_dir c)"
  by (cases c) (auto simp: base_dir_def object_dir_def)

lemma reset_infra_loop_cls: "cls (snd (reset_infra_loop supp kwargs self)) = cls self"
  by (induction supp kwargs self rule: reset_infra_loop.induct)
     (auto simp: setattr_infra_def split: prod.splits)

lemma reset_infra_loop_warnings:
  "fst (reset_infra_loop supp kwargs self) =
   map ignored_warning (filter (\<lambda>k. k \<notin> set supp) (map fst kwargs))"
  by (induction supp kwargs self rule: reset_infra_loop.induct)
     (auto split: prod.splits)

lemma reset_infra_loop_attrs:
  "distinct (map fst kwargs) \<Longrightarrow>
   attrs (snd (reset_infra_loop supp kwargs self)) name =
     (if name \<in> set supp
      then (case map_of kwargs name of Some v \<Rightarrow> Some v | None \<Rightarrow> attrs self name)
      else attrs self name)"
proof (induction kwargs arbitrary: self)
  case Nil
  then show ?case by simp
next
  case (Cons kv kwargs)
  obtain k v where kv: "kv = (k, v)"
    by (cases kv)
  have d: "distinct (map fst kwargs)" and k: "map_of kwargs k = None"
    using Cons.prems kv by (auto simp: map_of_eq_None_iff)
  show ?case
  proof (cases "k \<in> set supp")
    case True
    then show ?thesis
      using Cons.IH [OF d, of "setattr_infra self k v"] k kv
      by (cases "name = k") (simp_all add: setattr_infra_def split: option.splits)
  next
    case False
    then show ?thesis
      using Cons.IH [OF d, of self] k kv
      by (cases "name = k") (auto split: prod.splits option.splits)
  qed
qed

lemma infra_dict_distinct:
  "distinct (map fst d) \<Longrightarrow> distinct (map fst (infra_dict other ns d))"
  by (induction other ns d rule: infra_dict.induct)
     (auto simp: distinct_update split: option.splits)

lemma infra_dict_keys:
  "k \<in> set (map fst (infra_dict other ns d)) \<Longrightarrow> k \<in> set ns \<or> k \<in> set (map fst d)"
  by (induction other ns d rule: infra_dict.induct)
     (auto simp: dom_update split: option.splits)

lemma infra_dict_map_of:
  "map_of (infra_dict other ns d) name =
     (if name \<in> set ns
      then (case getattr_infra other name of Some v \<Rightarrow> Some v | None \<Rightarrow> map_of d name)
      else map_of d name)"
  by (induction other ns d rule: infra_dict.induct)
     (auto simp: update_conv' split: option.splits)

subsection \<open>Writing and merging\<close>

text \<open>
  The method's first parameter is named \<^verbatim>\<open>self\<close>: a call of \<^verbatim>\<open>reset_infra\<close>
  with a keyword argument of that name, which is not a supported name, raises.
\<close>

theorem reset_infra_self_keyword_raises:
  "get_support_infra (cls empty_common) = Inr [''trade_account'', ''trade_exchange''] \<and>
   reset_infra empty_common [(''self'', Obj 1)] = Inl TypeError"
  by (simp add: reset_infra_def empty_common_def)

text \<open>
  C7, amended. For a registry whose variant has a supported set and a call of
  \<^verbatim>\<open>reset_infra\<close> none of whose keyword arguments is named \<^verbatim>\<open>self\<close>, the call does
  not raise, and for every pair \<open>(name, v)\<close> of its keyword arguments: if \<open>name\<close> is in the
  supported set, \<open>v\<close> is stored under \<open>name\<close>, whatever was there before, and
  \<^verbatim>\<open>get(name)\<close> returns it; otherwise a warning for \<open>name\<close> is emitted, the
  attribute \<open>name\<close> is left as it was, and \<^verbatim>\<open>has(name)\<close> is false before and after.
\<close>

theorem reset_infra_stores_or_ignores:
  assumes "get_support_infra (cls self) = Inr support_infra"
    and "distinct (map fst kwargs)"
    and "''self'' \<notin> set (map fst kwargs)"
    and "(name, v) \<in> set kwargs"
  shows "\<exists>ws self'. reset_infra self kwargs = Inr (ws, self') \<and>
           (name \<in> set support_infra \<longrightarrow>
              attrs self' name = Some v \<and> get self' name = ([], Some v)) \<and>
           (name \<notin> set support_infra \<longrightarrow>
              ignored_warning name \<in> set ws \<and> attrs self' name = attrs self name \<and>
              has self name = Inr False \<and> has self' name = Inr False)"
proof -
  obtain ws self' where l: "reset_infra_loop support_infra kwargs self = (ws, self')"
    by (cases "reset_infra_loop support_infra kwargs self")
  have r: "reset_infra self kwargs = Inr (ws, self')"
    using assms(1,3) l by (simp add: reset_infra_def)
  have c: "cls self' = cls self"
    using reset_infra_loop_cls [of support_infra kwargs self] l by simp
  have m: "map_of kwargs name = Some v"
    using assms(2,4) by simp
  have a: "attrs self' name = (if name \<in> set support_infra then Some v else attrs self name)"
    using reset_infra_loop_attrs [OF assms(2), of support_infra self name] l m by simp
  have w: "ws = map ignored_warning (filter (\<lambda>k. k \<notin> set support_infra) (map fst kwargs))"
    using reset_infra_loop_warnings [of support_infra kwargs self] l by simp
  have 1: "attrs self' name = Some v \<and> get self' name = ([], Some v)"
    if "name \<in> set support_infra"
    using that a by (simp add: get_def hasattr_infra_def getattr_infra_def)
  have 2: "ignored_warning name \<in> set ws \<and> attrs self' name = attrs self name \<and>
           has self name = Inr False \<and> has self' name = Inr False"
    if "name \<notin> set support_infra"
  proof -
    have "name \<in> set (map fst kwargs)"
      using assms(4) by force
    then have "ignored_warning name \<in> set ws"
      using that w by simp
    then show ?thesis
      using that a c assms(1) by (simp add: has_def)
  qed
  show ?thesis
    using r 1 2 by blast
qed

theorem reset_infra_stores_or_ignores_witness:
  "reset_infra empty_common [(''trade_account'', Obj 1), (''foo'', Obj 2)] =
     Inr ([ignored_warning ''foo''],
          empty_common\<lparr>attrs := [''trade_account'' \<mapsto> Obj 1]\<rparr>) \<and>
   get (empty_common\<lparr>attrs := [''trade_account'' \<mapsto> Obj 1]\<rparr>) ''trade_account''
     = ([], Some (Obj 1)) \<and>
   has (empty_common\<lparr>attrs := [''trade_account'' \<mapsto> Obj 1]\<rparr>) ''foo'' = Inr False"
proof -
  have s: "get_support_infra (cls empty_common) = Inr [''trade_account'', ''trade_exchange'']"
    by (simp add: empty_common_def)
  have d: "distinct (map fst [(''trade_account'', Obj (1::nat)), (''foo'', Obj 2)])"
    by simp
  have n: "''self'' \<notin> set (map fst [(''trade_account'', Obj (1::nat)), (''foo'', Obj 2)])"
    by simp
  have r: "reset_infra empty_common [(''trade_account'', Obj 1), (''foo'', Obj 2)] =
     Inr ([ignored_warning ''foo''],
          empty_common\<lparr>attrs := [''trade_account'' \<mapsto> Obj 1]\<rparr>)"
    by (simp add: reset_infra_def empty_common_def setattr_infra_def)
  show ?thesis
    using reset_infra_stores_or_ignores [OF s d n, of "''trade_account''" "Obj 1"]
      reset_infra_stores_or_ignores [OF s d n, of "''foo''" "Obj 2"] r
    by simp
qed

text \<open>
  C8. For registries \<open>a\<close> and \<open>b\<close> whose variants have supported sets, \<^verbatim>\<open>a.update(b)\<close>
  does not raise, and afterwards: for every slot \<open>X\<close> that \<open>b\<close> supports and holds, if
  \<open>a\<close> supports \<open>X\<close> then \<^verbatim>\<open>a.get(X)\<close> is \<^verbatim>\<open>b.get(X)\<close> (and \<open>a\<close> holds \<open>X\<close>); and for
  every slot \<open>Y\<close> that \<open>b\<close> holds (supported by \<open>b\<close> or not) and \<open>a\<close> does not
  support, \<^verbatim>\<open>a.has(Y)\<close> is false.
\<close>

theorem update_copies_supported_slots:
  assumes "get_support_infra (cls a) = Inr support_a"
    and "get_support_infra (cls b) = Inr support_b"
  shows "\<exists>ws a'. update a b = Inr (ws, a') \<and>
           (\<forall>X. has b X = Inr True \<and> X \<in> set support_a \<longrightarrow>
                 get a' X = get b X \<and> has a' X = Inr True) \<and>
           (\<forall>Y. hasattr_infra b Y \<and> Y \<notin> set support_a \<longrightarrow> has a' Y = Inr False)"
proof -
  let ?d = "infra_dict b support_b []"
  obtain ws a' where l: "reset_infra_loop support_a ?d a = (ws, a')"
    by (cases "reset_infra_loop support_a ?d a")
  have "''self'' \<notin> set support_b"
    using assms(2) by (rule self_not_supported)
  then have ns: "''self'' \<notin> set (map fst ?d)"
    using infra_dict_keys [of "''self''" b support_b "[]"] by auto
  have u: "update a b = Inr (ws, a')"
    using assms l ns by (simp add: update_def reset_infra_def)
  have c: "cls a' = cls a"
    using reset_infra_loop_cls [of support_a ?d a] l by simp
  have dist: "distinct (map fst ?d)"
    by (rule infra_dict_distinct) simp
  have at: "attrs a' X =
     (if X \<in> set support_a
      then (case map_of ?d X of Some v \<Rightarrow> Some v | None \<Rightarrow> attrs a X)
      else attrs a X)" for X
    using reset_infra_loop_attrs [OF dist, of support_a a X] l by simp
  have 1: "get a' X = get b X \<and> has a' X = Inr True"
    if "has b X = Inr True \<and> X \<in> set support_a" for X
  proof -
    from that assms(2) obtain v
      where v: "getattr_infra b X = Some v" and xb: "X \<in> set support_b"
      by (auto simp: has_def hasattr_infra_def split: if_splits)
    have "map_of ?d X = Some v"
      using v xb by (simp add: infra_dict_map_of)
    then have "attrs a' X = Some v"
      using at that by simp
    then have "getattr_infra a' X = Some v"
      by (simp add: getattr_infra_def)
    then show ?thesis
      using v that c assms(1) by (simp add: get_def hasattr_infra_def has_def)
  qed
  have 2: "has a' Y = Inr False" if "hasattr_infra b Y \<and> Y \<notin> set support_a" for Y
    using that c assms(1) by (simp add: has_def)
  show ?thesis
    using u 1 2 by blast
qed

theorem update_copies_supported_slots_witness:
  "update empty_common holding_common = Inr ([], holding_common) \<and>
   get holding_common ''trade_account'' = ([], Some (Obj 7)) \<and>
   has holding_common ''trade_account'' = Inr True \<and>
   update empty_level holding_common
     = Inr ([ignored_warning ''trade_account''], empty_level) \<and>
   has empty_level ''trade_account'' = Inr False"
proof -
  have sc: "get_support_infra (cls empty_common) = Inr [''trade_account'', ''trade_exchange'']"
    by (simp add: empty_common_def)
  have sh: "get_support_infra (cls holding_common) = Inr [''trade_account'', ''trade_exchange'']"
    by (simp add: holding_common_def)
  have sl: "get_support_infra (cls empty_level) = Inr [''trade_calendar'', ''sub_level_infra'']"
    by (simp add: empty_level_def)
  have u1: "update empty_common holding_common = Inr ([], holding_common)"
    by (simp add: update_def reset_infra_def empty_common_def holding_common_def
        getattr_infra_def setattr_infra_def base_dir_def object_dir_def)
  have u2: "update empty_level holding_common
     = Inr ([ignored_warning ''trade_account''], empty_level)"
    by (simp add: update_def reset_infra_def empty_level_def holding_common_def
        getattr_infra_def setattr_infra_def base_dir_def object_dir_def)
  have h: "has holding_common ''trade_account'' = Inr True"
    by (simp add: has_def holding_common_def hasattr_infra_def getattr_infra_def)
  show ?thesis
    using update_copies_supported_slots [OF sc sh] update_copies_supported_slots [OF sl sh]
      u1 u2 h
    by (auto simp: get_def holding_common_def hasattr_infra_def getattr_infra_def)
qed

section \<open>The range resolver: properties\<close>

lemma get_start_end_idx_other_error:
  "get_range_limit d = Inl e \<Longrightarrow> (\<forall>m. e \<noteq> NotImplementedError m) \<Longrightarrow>
   get_start_end_idx trade_calendar d = Inl e"
  by (cases e) (simp_all add: get_start_end_idx_def)

text \<open>
  C9. \<^verbatim>\<open>get_start_end_idx\<close> returns the result of the decision's
  \<^verbatim>\<open>get_range_limit()\<close> as it is when the decision has that capability, and
  \<open>(0, trade_len - 1)\<close>, not an exception, when \<^verbatim>\<open>get_range_limit()\<close> raises
  \<^verbatim>\<open>NotImplementedError\<close>.
\<close>

theorem get_start_end_idx_range:
  "(get_range_limit outer_trade_decision = Inr r \<longrightarrow>
      get_start_end_idx trade_calendar outer_trade_decision = Inr r) \<and>
   (get_range_limit outer_trade_decision = Inl (NotImplementedError m) \<longrightarrow>
      get_start_end_idx trade_calendar outer_trade_decision
        = Inr (0, trade_len trade_calendar - 1))"
  by (simp add: get_start_end_idx_def get_trade_len_def)

theorem get_start_end_idx_range_witness:
  "get_start_end_idx example_calendar limited_decision = Inr (1, 2) \<and>
   get_start_end_idx example_calendar plain_decision = Inr (0, 2)"
  using get_start_end_idx_range [of limited_decision "(1, 2)" example_calendar]
    get_start_end_idx_range [of plain_decision _ example_calendar
      "''get_range_limit is not implemented''"]
  by (simp add: limited_decision_def plain_decision_def example_calendar_def)

end
